theory Spec2Isabelle
  imports Main
begin

section \<open>Values, exceptions and outcomes\<close>

text \<open>
  The values that reach the client from the decoded responses of the remote service:
  \<open>None\<close>, strings and integers. Python's \<open>==\<close> on these is equality of the
  constructor and its argument; a value is true in a condition unless it is \<open>None\<close>,
  the empty string or zero.
\<close>

datatype pyval = PNone | PStr string | PInt int

fun truthy :: "pyval \<Rightarrow> bool" where
  "truthy PNone = False"
| "truthy (PStr s) = (s \<noteq> [])"
| "truthy (PInt n) = (n \<noteq> 0)"

text \<open>
  What a call can raise. \<open>RemoteError\<close> stands for any exception of the remote
  client library. \<open>SystemExit\<close> and \<open>KeyboardInterrupt\<close> derive from
  \<open>BaseException\<close> only, so a handler \<open>except Exception\<close> lets them pass.
\<close>

datatype exn =
    KeyError string
  | TypeError
  | ValueError
  | AttributeError
  | Exception string
  | RemoteError string
  | SystemExit
  | KeyboardInterrupt

fun is_Exception :: "exn \<Rightarrow> bool" where
  "is_Exception SystemExit = False"
| "is_Exception KeyboardInterrupt = False"
| "is_Exception _ = True"

text \<open>A decoded JSON object: its keys in order, looked up with \<open>map_of\<close>.\<close>

type_synonym pydict = "(string \<times> pyval) list"

definition has_key :: "pydict \<Rightarrow> string \<Rightarrow> bool" where
  "has_key data k = (map_of data k \<noteq> None)"

definition dict_get :: "pydict \<Rightarrow> string \<Rightarrow> pyval" where
  \<comment> \<open>\<open>data.get(k)\<close>: \<open>None\<close> for a missing key\<close>
  "dict_get data k = (case map_of data k of None \<Rightarrow> PNone | Some v \<Rightarrow> v)"

section \<open>Track\<close>

record track =
  id' :: pyval
  track_id :: pyval
  store_id :: pyval
  title :: pyval
  artist :: pyval
  duration :: int

definition Track_id :: "track \<Rightarrow> exn + pyval" where
  "Track_id self =
     (if truthy (id' self) then Inr (id' self)
      else if truthy (track_id self) then Inr (track_id self)
      else if truthy (store_id self) then Inr (store_id self)
      else Inl (Exception ''None of id, track_id and store_id were set for this track!''))"

definition Track_eq :: "track \<Rightarrow> track \<Rightarrow> bool" where
  "Track_eq self other =
     (if truthy (track_id self) then track_id self = track_id other
      else if truthy (store_id self) then store_id self = store_id other
      else if truthy (id' self) then store_id self = id' other
      else False)"

definition Track_type :: "track \<Rightarrow> exn + string" where
  "Track_type self =
     (if truthy (track_id self) then Inr ''playlist''
      else if truthy (store_id self) then Inr ''store''
      else if truthy (id' self) then Inr ''uploaded''
      else Inl (Exception ''None of id, track_id and store_id were set for this track!''))"

text \<open>
  \<open>Track.from_data\<close> for one response object. The conversion \<open>int(...)\<close> of the
  Python runtime is the parameter \<open>py_int\<close>. The keyword arguments are evaluated in
  the order they are written, so a missing title is reported before a missing artist.
\<close>

definition Track_from_data :: "(pyval \<Rightarrow> exn + int) \<Rightarrow> pydict \<Rightarrow> exn + track" where
  "Track_from_data py_int data =
     (if \<not> has_key data ''id'' \<and> \<not> has_key data ''storeId'' \<and> \<not> has_key data ''trackId''
      then Inl (Exception ''Track is missing id, storeId and trackId!'')
      else case map_of data ''title'' of
        None \<Rightarrow> Inl (KeyError ''title'')
      | Some t \<Rightarrow>
        (case map_of data ''artist'' of
          None \<Rightarrow> Inl (KeyError ''artist'')
        | Some a \<Rightarrow>
          (case map_of data ''durationMillis'' of
            None \<Rightarrow> Inl (KeyError ''durationMillis'')
          | Some d \<Rightarrow>
            (case py_int d of
              Inl e \<Rightarrow> Inl e
            | Inr n \<Rightarrow> Inr \<lparr> id' = dict_get data ''id'',
                           track_id = dict_get data ''trackId'',
                           store_id = dict_get data ''storeId'',
                           title = t, artist = a, duration = n \<rparr>))))"

section \<open>The store of Track objects\<close>

text \<open>
  Track objects are mutable and shared by reference: the library cache and the playlists
  hold references. The store is the list of all Track objects created so far; a reference
  is an index into it and a new object is appended.
\<close>

type_synonym ref = nat
type_synonym store = "track list"

definition new_Track :: "track \<Rightarrow> store \<Rightarrow> ref \<times> store" where
  "new_Track t h = (length h, h @ [t])"

definition Track_copy :: "ref \<Rightarrow> store \<Rightarrow> ref \<times> store" where
  "Track_copy self h =
     new_Track \<lparr> id' = id' (h ! self), track_id = track_id (h ! self),
                 store_id = store_id (h ! self), title = title (h ! self),
                 artist = artist (h ! self), duration = duration (h ! self) \<rparr> h"

text \<open>\<open>Track.from_data(data, many=True)\<close>: the comprehension stops at the first exception.\<close>

fun Track_from_data_many ::
  "(pyval \<Rightarrow> exn + int) \<Rightarrow> pydict list \<Rightarrow> store \<Rightarrow> (exn + ref list) \<times> store" where
  "Track_from_data_many py_int [] h = (Inr [], h)"
| "Track_from_data_many py_int (one # data) h =
     (case Track_from_data py_int one of
        Inl e \<Rightarrow> (Inl e, h)
      | Inr t \<Rightarrow>
        (case new_Track t h of (a, h1) \<Rightarrow>
          (case Track_from_data_many py_int data h1 of
             (Inl e, h2) \<Rightarrow> (Inl e, h2)
           | (Inr rest, h2) \<Rightarrow> (Inr (a # rest), h2))))"

section \<open>The client\<close>

record playlist =
  playlist_id :: pyval
  name :: pyval
  tracks :: "ref list"

datatype event = CachesInvalidated | AuthStateChanged bool

datatype remote_call =
    Logout | Login | GetAllSongs | GetAllUserPlaylistContents
  | AddStoreTracks pyval | DeleteSongs pyval

text \<open>
  The singleton \<open>GP\<close>: the session of the remote client (of an arbitrary type \<open>'r\<close>), the
  two caches (\<open>None\<close> as in the source), the store of Track objects, and two traces kept
  for the statements below: the events fired and the calls made to the remote client.
\<close>

record 'r gp =
  mobile_client :: 'r
  cached_tracks :: "ref list option"
  cached_playlists :: "playlist list option"
  heap :: store
  events :: "event list"
  calls :: "remote_call list"

text \<open>
  The remote client library (\<open>gmusicapi.Mobileclient\<close>) is a parameter: each method
  returns or raises, and leaves the session in a new state.
\<close>

record playlist_entry =
  entry_track :: "pydict option"
  entry_trackId :: "pyval option"

record playlist_data =
  data_id :: "pyval option"
  data_name :: "pyval option"
  data_tracks :: "playlist_entry list option"

record 'r mobileclient =
  mc_logout :: "'r \<Rightarrow> (exn + bool) \<times> 'r"
  mc_login :: "pyval \<Rightarrow> pyval \<Rightarrow> pyval \<Rightarrow> 'r \<Rightarrow> (exn + bool) \<times> 'r"
  mc_is_authenticated :: "'r \<Rightarrow> bool"
  mc_get_all_songs :: "'r \<Rightarrow> (exn + pydict list) \<times> 'r"
  mc_get_all_user_playlist_contents :: "'r \<Rightarrow> (exn + playlist_data list) \<times> 'r"
  mc_add_store_tracks :: "pyval \<Rightarrow> 'r \<Rightarrow> (exn + pyval list) \<times> 'r"
  mc_delete_songs :: "pyval \<Rightarrow> 'r \<Rightarrow> (exn + pyval list) \<times> 'r"

definition remote ::
  "remote_call \<Rightarrow> ('r \<Rightarrow> (exn + 'a) \<times> 'r) \<Rightarrow> 'r gp \<Rightarrow> (exn + 'a) \<times> 'r gp" where
  \<comment> \<open>a call of a method of \<open>self.mobile_client\<close>, recorded in the trace\<close>
  "remote c m s =
     (case m (mobile_client s) of
        (res, r) \<Rightarrow> (res, s\<lparr> mobile_client := r, calls := calls s @ [c] \<rparr>))"

definition fire :: "event \<Rightarrow> 'r gp \<Rightarrow> 'r gp" where
  \<comment> \<open>Modelled from the spec: \<open>EventHook.fire\<close> of \<open>clay/eventhook.py\<close>, which is not
      among the sources. The spec describes a broadcast to the subscribers, synchronous
      in the firing context; the subscribers are outside collaborators, so firing is
      recorded in the trace of events and changes nothing else of the client.\<close>
  "fire ev s = s\<lparr> events := events s @ [ev] \<rparr>"

definition invalidate_caches :: "'r gp \<Rightarrow> 'r gp" where
  "invalidate_caches s =
     fire CachesInvalidated (s\<lparr> cached_tracks := None, cached_playlists := None \<rparr>)"

definition GP_init :: "'r \<Rightarrow> 'r gp" where
  \<comment> \<open>\<open>GP.__init__\<close>, with the session of a new \<open>Mobileclient()\<close>\<close>
  "GP_init r =
     invalidate_caches \<lparr> mobile_client = r, cached_tracks = None, cached_playlists = None,
                         heap = [], events = [], calls = [] \<rparr>"

definition is_authenticated :: "'r mobileclient \<Rightarrow> 'r gp \<Rightarrow> bool" where
  "is_authenticated mc s = mc_is_authenticated mc (mobile_client s)"

text \<open>
  \<open>synchronized\<close> takes a lock of its own for each decorated function and releases it on
  return and on exception. The theory describes the operations one at a time, in one
  thread of execution, where the lock is free on entry and free again on exit (the nested
  call of \<open>get_all_tracks\<close> inside \<open>get_all_user_playlist_contents\<close> takes another lock),
  so a decorated function behaves as its body.
\<close>

definition login ::
  "'r mobileclient \<Rightarrow> pyval \<Rightarrow> pyval \<Rightarrow> pyval \<Rightarrow> 'r gp \<Rightarrow> (exn + bool) \<times> 'r gp" where
  "login mc email password device_id s =
     (case remote Logout (mc_logout mc) s of
        (Inl e, s1) \<Rightarrow> (Inl e, s1)
      | (Inr _, s1) \<Rightarrow>
        (let s2 = invalidate_caches s1;
             prev_auth_state = is_authenticated mc s2
         in case remote Login (mc_login mc email password device_id) s2 of
              (Inl e, s3) \<Rightarrow> (Inl e, s3)
            | (Inr result, s3) \<Rightarrow>
                (Inr result,
                 if prev_auth_state \<noteq> is_authenticated mc s3
                 then fire (AuthStateChanged (is_authenticated mc s3)) s3
                 else s3)))"

definition cache_hit :: "'a list option \<Rightarrow> 'a list option" where
  \<comment> \<open>the guard \<open>if self.cached_tracks:\<close> is false for \<open>None\<close> and for the empty list\<close>
  "cache_hit c = (case c of None \<Rightarrow> None | Some [] \<Rightarrow> None | Some (x # xs) \<Rightarrow> Some (x # xs))"

definition get_all_tracks ::
  "'r mobileclient \<Rightarrow> (pyval \<Rightarrow> exn + int) \<Rightarrow> 'r gp \<Rightarrow> (exn + ref list) \<times> 'r gp" where
  "get_all_tracks mc py_int s =
     (case cache_hit (cached_tracks s) of
        Some ts \<Rightarrow> (Inr ts, s)
      | None \<Rightarrow>
        (case remote GetAllSongs (mc_get_all_songs mc) s of
           (Inl e, s1) \<Rightarrow> (Inl e, s1)
         | (Inr data, s1) \<Rightarrow>
           (case Track_from_data_many py_int data (heap s1) of
              (Inl e, h) \<Rightarrow> (Inl e, s1\<lparr> heap := h \<rparr>)
            | (Inr ts, h) \<Rightarrow> (Inr ts, s1\<lparr> heap := h, cached_tracks := Some ts \<rparr>))))"

text \<open>
  \<open>get_track_by_id\<close>: the loop over \<open>self.cached_tracks\<close>; iterating over \<open>None\<close>
  raises \<open>TypeError\<close>.
\<close>

definition id_matches :: "pyval \<Rightarrow> track \<Rightarrow> bool" where
  \<comment> \<open>\<open>any_id in (track.id_, track.store_id, track.track_id)\<close>\<close>
  "id_matches any_id t = (any_id = id' t \<or> any_id = store_id t \<or> any_id = track_id t)"

fun scan_tracks :: "pyval \<Rightarrow> store \<Rightarrow> ref list \<Rightarrow> ref option" where
  "scan_tracks any_id h [] = None"
| "scan_tracks any_id h (a # rest) =
     (if id_matches any_id (h ! a) then Some a else scan_tracks any_id h rest)"

definition get_track_by_id :: "pyval \<Rightarrow> 'r gp \<Rightarrow> exn + ref option" where
  "get_track_by_id any_id s =
     (case cached_tracks s of
        None \<Rightarrow> Inl TypeError
      | Some ts \<Rightarrow> Inr (scan_tracks any_id (heap s) ts))"

section \<open>Playlist reconciliation\<close>

text \<open>
  The body of the loop of \<open>Playlist.playlist_items_to_tracks\<close> for one entry: the Track
  object appended to \<open>results\<close>. \<open>GP.get()\<close> is the client state passed along.
\<close>

definition playlist_item_to_track ::
  "(pyval \<Rightarrow> exn + int) \<Rightarrow> playlist_entry \<Rightarrow> 'r gp \<Rightarrow> (exn + ref) \<times> 'r gp" where
  "playlist_item_to_track py_int playlist_track s =
     (case entry_track playlist_track of
        Some d \<Rightarrow>
          (case Track_from_data py_int d of
             Inl e \<Rightarrow> (Inl e, s)
           | Inr t \<Rightarrow> (case new_Track t (heap s) of (a, h) \<Rightarrow> (Inr a, s\<lparr> heap := h \<rparr>)))
      | None \<Rightarrow>
          (case entry_trackId playlist_track of
             None \<Rightarrow> (Inl (KeyError ''trackId''), s)
           | Some tid \<Rightarrow>
             (case get_track_by_id tid s of
                Inl e \<Rightarrow> (Inl e, s)
              | Inr None \<Rightarrow> (Inl AttributeError, s)
              | Inr (Some found) \<Rightarrow>
                (case Track_copy found (heap s) of
                   (a, h) \<Rightarrow> (Inr a, s\<lparr> heap := h[a := (h ! a)\<lparr> track_id := tid \<rparr>] \<rparr>)))))"

fun items_loop ::
  "(pyval \<Rightarrow> exn + int) \<Rightarrow> playlist_entry list \<Rightarrow> ref list \<Rightarrow> 'r gp
     \<Rightarrow> (exn + ref list) \<times> 'r gp" where
  "items_loop py_int [] results s = (Inr results, s)"
| "items_loop py_int (playlist_track # rest) results s =
     (case playlist_item_to_track py_int playlist_track s of
        (Inl e, s1) \<Rightarrow> (Inl e, s1)
      | (Inr a, s1) \<Rightarrow> items_loop py_int rest (results @ [a]) s1)"

definition playlist_items_to_tracks ::
  "(pyval \<Rightarrow> exn + int) \<Rightarrow> playlist_entry list \<Rightarrow> 'r gp \<Rightarrow> (exn + ref list) \<times> 'r gp" where
  "playlist_items_to_tracks py_int playlist_tracks s = items_loop py_int playlist_tracks [] s"

definition Playlist_from_data ::
  "(pyval \<Rightarrow> exn + int) \<Rightarrow> playlist_data \<Rightarrow> 'r gp \<Rightarrow> (exn + playlist) \<times> 'r gp" where
  "Playlist_from_data py_int data s =
     (case data_id data of
        None \<Rightarrow> (Inl (KeyError ''id''), s)
      | Some i \<Rightarrow>
        (case data_name data of
           None \<Rightarrow> (Inl (KeyError ''name''), s)
         | Some n \<Rightarrow>
           (case data_tracks data of
              None \<Rightarrow> (Inl (KeyError ''tracks''), s)
            | Some pts \<Rightarrow>
              (case playlist_items_to_tracks py_int pts s of
                 (Inl e, s1) \<Rightarrow> (Inl e, s1)
               | (Inr ts, s1) \<Rightarrow>
                   (Inr \<lparr> playlist_id = i, name = n, tracks = ts \<rparr>, s1)))))"

fun Playlist_from_data_many ::
  "(pyval \<Rightarrow> exn + int) \<Rightarrow> playlist_data list \<Rightarrow> 'r gp \<Rightarrow> (exn + playlist list) \<times> 'r gp" where
  "Playlist_from_data_many py_int [] s = (Inr [], s)"
| "Playlist_from_data_many py_int (one # data) s =
     (case Playlist_from_data py_int one s of
        (Inl e, s1) \<Rightarrow> (Inl e, s1)
      | (Inr p, s1) \<Rightarrow>
        (case Playlist_from_data_many py_int data s1 of
           (Inl e, s2) \<Rightarrow> (Inl e, s2)
         | (Inr ps, s2) \<Rightarrow> (Inr (p # ps), s2)))"

definition get_all_user_playlist_contents ::
  "'r mobileclient \<Rightarrow> (pyval \<Rightarrow> exn + int) \<Rightarrow> 'r gp \<Rightarrow> (exn + playlist list) \<times> 'r gp" where
  "get_all_user_playlist_contents mc py_int s =
     (case cache_hit (cached_playlists s) of
        Some ps \<Rightarrow> (Inr ps, s)
      | None \<Rightarrow>
        (case get_all_tracks mc py_int s of
           (Inl e, s1) \<Rightarrow> (Inl e, s1)
         | (Inr _, s1) \<Rightarrow>
           (case remote GetAllUserPlaylistContents (mc_get_all_user_playlist_contents mc) s1 of
              (Inl e, s2) \<Rightarrow> (Inl e, s2)
            | (Inr data, s2) \<Rightarrow>
              (case Playlist_from_data_many py_int data s2 of
                 (Inl e, s3) \<Rightarrow> (Inl e, s3)
               | (Inr ps, s3) \<Rightarrow> (Inr ps, s3\<lparr> cached_playlists := Some ps \<rparr>)))))"

text \<open>
  Library membership. \<open>track.id\<close> is read first and may raise; \<open>if result:\<close> on the list
  the remote client returns is false for the empty list.
\<close>

definition add_to_my_library ::
  "'r mobileclient \<Rightarrow> ref \<Rightarrow> 'r gp \<Rightarrow> (exn + pyval list) \<times> 'r gp" where
  "add_to_my_library mc track s =
     (case Track_id (heap s ! track) of
        Inl e \<Rightarrow> (Inl e, s)
      | Inr i \<Rightarrow>
        (case remote (AddStoreTracks i) (mc_add_store_tracks mc i) s of
           (Inl e, s1) \<Rightarrow> (Inl e, s1)
         | (Inr result, s1) \<Rightarrow>
             (Inr result, if result \<noteq> [] then invalidate_caches s1 else s1)))"

definition remove_from_my_library ::
  "'r mobileclient \<Rightarrow> ref \<Rightarrow> 'r gp \<Rightarrow> (exn + pyval list) \<times> 'r gp" where
  "remove_from_my_library mc track s =
     (case Track_id (heap s ! track) of
        Inl e \<Rightarrow> (Inl e, s)
      | Inr i \<Rightarrow>
        (case remote (DeleteSongs i) (mc_delete_songs mc i) s of
           (Inl e, s1) \<Rightarrow> (Inl e, s1)
         | (Inr result, s1) \<Rightarrow>
             (Inr result, if result \<noteq> [] then invalidate_caches s1 else s1)))"

section \<open>The asynchronous wrapper\<close>

text \<open>
  \<open>asynchronous(func)\<close>. The keyword arguments of a call are the \<open>callback\<close> (absent
  when the caller gave none), the \<open>extra\<close> dictionary (absent when not given) and the
  rest, which goes to \<open>func\<close>. A result is a Python value, \<open>None\<close> included, hence an
  option. The callback belongs to the caller: it returns or raises and may change the
  state. Every invocation of the callback is recorded as a delivery.
\<close>

datatype ('a, 'v) delivery =
  Delivery (d_result: "'a option") (d_error: "exn option") (d_extra: "(string \<times> 'v) list")

type_synonym ('a, 'v, 's) callback =
  "'a option \<Rightarrow> exn option \<Rightarrow> (string \<times> 'v) list \<Rightarrow> 's \<Rightarrow> (exn + unit) \<times> 's"

record ('k, 'a, 'v, 's) kwargs =
  kw_callback :: "('a, 'v, 's) callback option"
  kw_extra :: "(string \<times> 'v) list option"
  kw_rest :: 'k

text \<open>
  The thread body \<open>process\<close>: what the thread ends with, the deliveries it made, and the
  state it leaves. An exception of the callback is not handled (the \<open>else\<close> branch is
  outside the \<open>try\<close>, the handler has no handler of its own).
\<close>

definition process ::
  "('p \<Rightarrow> 'k \<Rightarrow> 's \<Rightarrow> (exn + 'a option) \<times> 's) \<Rightarrow> 'p \<Rightarrow> 'k \<Rightarrow> ('a, 'v, 's) callback
     \<Rightarrow> (string \<times> 'v) list \<Rightarrow> 's \<Rightarrow> (exn + unit) \<times> ('a, 'v) delivery list \<times> 's" where
  "process func args rest callback extra s =
     (case func args rest s of
        (Inl error, s1) \<Rightarrow>
          if is_Exception error
          then (case callback None (Some error) extra s1 of
                  (out, s2) \<Rightarrow> (out, [Delivery None (Some error) extra], s2))
          else (Inl error, [], s1)
      | (Inr result, s1) \<Rightarrow>
          (case callback result None extra s1 of
             (out, s2) \<Rightarrow> (out, [Delivery result None extra], s2)))"

text \<open>
  The wrapper itself: it raises \<open>KeyError\<close> when there is no callback, and otherwise
  returns (\<open>None\<close>) with the body of the thread it has started.
\<close>

definition pop_extra :: "('k, 'a, 'v, 's) kwargs \<Rightarrow> (string \<times> 'v) list" where
  \<comment> \<open>\<open>kwargs.pop('extra', dict())\<close>\<close>
  "pop_extra kwargs = (case kw_extra kwargs of None \<Rightarrow> [] | Some extra \<Rightarrow> extra)"

definition asynchronous ::
  "('p \<Rightarrow> 'k \<Rightarrow> 's \<Rightarrow> (exn + 'a option) \<times> 's) \<Rightarrow> 'p \<Rightarrow> ('k, 'a, 'v, 's) kwargs
     \<Rightarrow> exn + ('s \<Rightarrow> (exn + unit) \<times> ('a, 'v) delivery list \<times> 's)" where
  "asynchronous func args kwargs =
     (case kw_callback kwargs of
        None \<Rightarrow> Inl (KeyError ''callback'')
      | Some callback \<Rightarrow>
          Inr (process func args (kw_rest kwargs) callback (pop_extra kwargs)))"

text \<open>
  \<open>login_async = asynchronous(login)\<close>. The value \<open>login\<close> returns is the one of the
  remote client, a truth value and not \<open>None\<close>.
\<close>

definition returning :: "('s \<Rightarrow> (exn + 'a) \<times> 's) \<Rightarrow> 's \<Rightarrow> (exn + 'a option) \<times> 's" where
  "returning f s = (case f s of (Inl e, s1) \<Rightarrow> (Inl e, s1) | (Inr v, s1) \<Rightarrow> (Inr (Some v), s1))"

definition login_async ::
  "'r mobileclient \<Rightarrow> pyval \<times> pyval \<times> pyval \<Rightarrow> (unit, bool, 'v, 'r gp) kwargs
     \<Rightarrow> exn + ('r gp \<Rightarrow> (exn + unit) \<times> (bool, 'v) delivery list \<times> 'r gp)" where
  "login_async mc =
     asynchronous (\<lambda>(email, password, device_id) rest.
                     returning (login mc email password device_id))"

section \<open>A stand-in for the remote client, for the examples\<close>

record mock =
  m_auth :: bool
  m_up :: bool
  m_songs :: "pydict list"
  m_playlists :: "playlist_data list"

definition mock_call :: "'a \<Rightarrow> mock \<Rightarrow> (exn + 'a) \<times> mock" where
  "mock_call v r = (if m_up r then (Inr v, r) else (Inl (RemoteError ''unreachable''), r))"

definition mock_client :: "mock mobileclient" where
  "mock_client =
     \<lparr> mc_logout = (\<lambda>r. (Inr True, r\<lparr> m_auth := False \<rparr>)),
       mc_login = (\<lambda>email password device_id r.
          if \<not> m_up r then (Inl (RemoteError ''unreachable''), r)
          else if password = PStr ''secret'' then (Inr True, r\<lparr> m_auth := True \<rparr>)
          else (Inr False, r)),
       mc_is_authenticated = m_auth,
       mc_get_all_songs = (\<lambda>r. mock_call (m_songs r) r),
       mc_get_all_user_playlist_contents = (\<lambda>r. mock_call (m_playlists r) r),
       mc_add_store_tracks = (\<lambda>i r. mock_call [i] r),
       mc_delete_songs = (\<lambda>i r. mock_call [i] r) \<rparr>"

text \<open>
  A conversion for the examples: Python's \<open>int\<close> on \<open>None\<close> and on an integer, the only
  values the examples apply it to. On a string it raises \<open>ValueError\<close>, which Python does
  only for a string that is not a numeral; the theorems hold for every conversion \<open>py_int\<close>.
\<close>

definition int_of_number :: "pyval \<Rightarrow> exn + int" where
  "int_of_number v = (case v of PInt n \<Rightarrow> Inr n | PNone \<Rightarrow> Inl TypeError | PStr _ \<Rightarrow> Inl ValueError)"

definition song :: "string \<Rightarrow> string \<Rightarrow> pydict" where
  \<comment> \<open>a library track as the service lists it: a library id and a store id\<close>
  "song i sid =
     [(''id'', PStr i), (''storeId'', PStr sid), (''title'', PStr ''T''),
      (''artist'', PStr ''A''), (''durationMillis'', PInt 1000)]"

section \<open>Notions used in the statements\<close>

definition deliveries ::
  "(exn + unit) \<times> ('a, 'v) delivery list \<times> 's \<Rightarrow> ('a, 'v) delivery list" where
  "deliveries run = fst (snd run)"

fun is_auth_event :: "event \<Rightarrow> bool" where
  "is_auth_event (AuthStateChanged b) = True"
| "is_auth_event CachesInvalidated = False"

definition auth_events_since :: "'r gp \<Rightarrow> 'r gp \<Rightarrow> event list" where
  \<comment> \<open>the authentication events fired between the state \<open>s\<close> and the later state \<open>s'\<close>\<close>
  "auth_events_since s s' = filter is_auth_event (drop (length (events s)) (events s'))"

definition fetches :: "'r gp \<Rightarrow> nat" where
  \<comment> \<open>how often the library has been fetched from the remote service\<close>
  "fetches s = count_list (calls s) GetAllSongs"

definition cache_dep :: "'r gp \<Rightarrow> bool" where
  \<comment> \<open>a cache is populated when it is not \<open>None\<close>\<close>
  "cache_dep s = (cached_playlists s \<noteq> None \<longrightarrow> cached_tracks s \<noteq> None)"

definition cache_allocated :: "'r gp \<Rightarrow> bool" where
  \<comment> \<open>every reference in the track cache is to an object of the store\<close>
  "cache_allocated s =
     (case cached_tracks s of None \<Rightarrow> True | Some ts \<Rightarrow> \<forall>a \<in> set ts. a < length (heap s))"

text \<open>
  The Track a playlist entry stands for, given the client state at the start of the
  reconciliation: the parsed embedded data, or the library track found for the bare
  track id with the \<open>track_id\<close> field replaced.
\<close>

definition produced :: "(pyval \<Rightarrow> exn + int) \<Rightarrow> 'r gp \<Rightarrow> playlist_entry \<Rightarrow> track \<Rightarrow> bool" where
  "produced py_int s pt t =
     (case entry_track pt of
        Some d \<Rightarrow> Track_from_data py_int d = Inr t
      | None \<Rightarrow>
        (case entry_trackId pt of
           None \<Rightarrow> False
         | Some tid \<Rightarrow>
           (case get_track_by_id tid s of
              Inr (Some found) \<Rightarrow> t = (heap s ! found)\<lparr> track_id := tid \<rparr>
            | _ \<Rightarrow> False)))"

section \<open>Example data\<close>

definition playlist_copy :: track where
  "playlist_copy = \<lparr> id' = PNone, track_id = PStr ''t1'', store_id = PStr ''s1'',
                     title = PStr ''T'', artist = PStr ''A'', duration = 1000 \<rparr>"

definition store_track :: track where
  "store_track = \<lparr> id' = PNone, track_id = PNone, store_id = PStr ''s1'',
                    title = PStr ''T'', artist = PStr ''A'', duration = 1000 \<rparr>"

definition library_track :: track where
  "library_track = \<lparr> id' = PStr ''l1'', track_id = PNone, store_id = PNone,
                      title = PStr ''T'', artist = PStr ''A'', duration = 1000 \<rparr>"

definition quiet_callback :: "(pyval, pyval, nat) callback" where
  \<comment> \<open>a callback that counts its invocations in the state\<close>
  "quiet_callback result error extra s = (Inr (), Suc s)"

definition failing_core :: "unit \<Rightarrow> unit \<Rightarrow> nat \<Rightarrow> (exn + pyval option) \<times> nat" where
  "failing_core args rest s = (Inl (RemoteError ''unreachable''), s)"

definition exiting_core :: "unit \<Rightarrow> unit \<Rightarrow> nat \<Rightarrow> (exn + pyval option) \<times> nat" where
  \<comment> \<open>an operation that calls \<open>sys.exit()\<close>\<close>
  "exiting_core args rest s = (Inl SystemExit, s)"

definition silent_core :: "unit \<Rightarrow> unit \<Rightarrow> nat \<Rightarrow> (exn + pyval option) \<times> nat" where
  \<comment> \<open>an operation that returns \<open>None\<close>\<close>
  "silent_core args rest s = (Inr None, s)"

definition example_kwargs :: "(unit, pyval, pyval, nat) kwargs" where
  "example_kwargs = \<lparr> kw_callback = Some quiet_callback,
                      kw_extra = Some [(''track'', PStr ''t1'')], kw_rest = () \<rparr>"

definition mock_with :: "pydict list \<Rightarrow> playlist_data list \<Rightarrow> mock" where
  "mock_with songs playlists =
     \<lparr> m_auth = False, m_up = True, m_songs = songs, m_playlists = playlists \<rparr>"

definition mock0 :: mock where
  "mock0 = mock_with [song ''l1'' ''s1'', song ''l2'' ''s2''] []"

definition bare_entry :: "string \<Rightarrow> playlist_entry" where
  "bare_entry i = \<lparr> entry_track = None, entry_trackId = Some (PStr i) \<rparr>"

definition embedded_entry :: "string \<Rightarrow> playlist_entry" where
  "embedded_entry sid =
     \<lparr> entry_track = Some [(''storeId'', PStr sid), (''title'', PStr ''T''),
                           (''artist'', PStr ''A''), (''durationMillis'', PInt 1000)],
       entry_trackId = Some (PStr sid) \<rparr>"

definition playlist_of :: "string \<Rightarrow> playlist_entry list \<Rightarrow> playlist_data" where
  "playlist_of i entries =
     \<lparr> data_id = Some (PStr i), data_name = Some (PStr ''P''), data_tracks = Some entries \<rparr>"

definition loaded :: "mock gp" where
  \<comment> \<open>the client after \<open>get_all_tracks\<close> on a library of two tracks\<close>
  "loaded =
     \<lparr> mobile_client = mock0, cached_tracks = Some [0, 1], cached_playlists = None,
       heap = [\<lparr> id' = PStr ''l1'', track_id = PNone, store_id = PStr ''s1'',
                 title = PStr ''T'', artist = PStr ''A'', duration = 1000 \<rparr>,
               \<lparr> id' = PStr ''l2'', track_id = PNone, store_id = PStr ''s2'',
                 title = PStr ''T'', artist = PStr ''A'', duration = 1000 \<rparr>],
       events = [CachesInvalidated], calls = [GetAllSongs] \<rparr>"

definition mock1 :: mock where
  "mock1 = mock_with [song ''l1'' ''s1'', song ''l2'' ''s2'']
             [playlist_of ''p1'' [embedded_entry ''s9'', bare_entry ''l2'']]"

definition synced :: "mock gp" where
  \<comment> \<open>the client after \<open>get_all_user_playlist_contents\<close> on that library and one playlist\<close>
  "synced =
     \<lparr> mobile_client = mock1, cached_tracks = Some [0, 1],
       cached_playlists = Some [\<lparr> playlist_id = PStr ''p1'', name = PStr ''P'', tracks = [2, 3] \<rparr>],
       heap = [\<lparr> id' = PStr ''l1'', track_id = PNone, store_id = PStr ''s1'',
                 title = PStr ''T'', artist = PStr ''A'', duration = 1000 \<rparr>,
               \<lparr> id' = PStr ''l2'', track_id = PNone, store_id = PStr ''s2'',
                 title = PStr ''T'', artist = PStr ''A'', duration = 1000 \<rparr>,
               \<lparr> id' = PNone, track_id = PNone, store_id = PStr ''s9'',
                 title = PStr ''T'', artist = PStr ''A'', duration = 1000 \<rparr>,
               \<lparr> id' = PStr ''l2'', track_id = PStr ''l2'', store_id = PStr ''s2'',
                 title = PStr ''T'', artist = PStr ''A'', duration = 1000 \<rparr>],
       events = [CachesInvalidated],
       calls = [GetAllSongs, GetAllUserPlaylistContents] \<rparr>"

definition late_failing_client :: "mock mobileclient" where
  \<comment> \<open>a remote client whose \<open>login\<close> authenticates the session and then raises\<close>
  "late_failing_client =
     mock_client\<lparr> mc_login := (\<lambda>email password device_id r.
                     (Inl (RemoteError ''timeout''), r\<lparr> m_auth := True \<rparr>)) \<rparr>"

definition mock2 :: mock where
  \<comment> \<open>the second playlist refers to a track that is not in the library\<close>
  "mock2 = mock_with [song ''l1'' ''s1'', song ''l2'' ''s2'']
             [playlist_of ''p1'' [embedded_entry ''s9'', bare_entry ''l2''],
              playlist_of ''p2'' [bare_entry ''gone'']]"

section \<open>Track equality\<close>

text \<open>
  C3 (as stated: equality is symmetric). A playlist copy of a store track and the store
  track itself: the copy compares its track id, the store track compares its store id, so
  the two calls disagree.
\<close>

theorem Track_eq_not_symmetric:
  "\<not> (Track_eq playlist_copy store_track \<longleftrightarrow> Track_eq store_track playlist_copy)"
  by (simp add: Track_eq_def playlist_copy_def store_track_def)

text \<open>
  The last branch compares \<open>self.store_id\<close>, which is empty there, with \<open>other.id_\<close>: a
  track that has a library id only is not equal to itself.
\<close>

lemma Track_eq_library_only: "\<not> Track_eq library_track library_track"
  by (simp add: Track_eq_def library_track_def)

text \<open>
  C3, amended. \<open>a == b\<close> is decided by the first populated identifier of \<open>a\<close>, the left
  operand, in the order track id, store id: it is the equality of the track ids when
  \<open>a\<close> has one, else the equality of the store ids when \<open>a\<close> has one, and false when
  \<open>a\<close> has no identifier at all. It is symmetric between two tracks that both have a track
  id, and between two tracks without track id that both have a store id. Title, artist and
  duration play no part.
\<close>

theorem Track_eq_precedence:
  "(truthy (track_id a) \<longrightarrow> Track_eq a b = (track_id a = track_id b)) \<and>
   (\<not> truthy (track_id a) \<and> truthy (store_id a) \<longrightarrow> Track_eq a b = (store_id a = store_id b)) \<and>
   (\<not> truthy (track_id a) \<and> \<not> truthy (store_id a) \<and> \<not> truthy (id' a) \<longrightarrow> \<not> Track_eq a b) \<and>
   (truthy (track_id a) \<and> truthy (track_id b) \<longrightarrow> Track_eq a b = Track_eq b a) \<and>
   (\<not> truthy (track_id a) \<and> \<not> truthy (track_id b) \<and> truthy (store_id a) \<and> truthy (store_id b)
      \<longrightarrow> Track_eq a b = Track_eq b a) \<and>
   Track_eq (a\<lparr> title := t1, artist := a1, duration := d1 \<rparr>)
            (b\<lparr> title := t2, artist := a2, duration := d2 \<rparr>) = Track_eq a b"
  by (auto simp add: Track_eq_def)

theorem Track_eq_precedence_witness:
  "truthy (track_id playlist_copy) \<and>
   Track_eq playlist_copy
     (playlist_copy\<lparr> title := PStr ''other'', artist := PStr ''B'', duration := 5 \<rparr>) \<and>
   \<not> truthy (track_id store_track) \<and> truthy (store_id store_track) \<and>
   Track_eq store_track (playlist_copy\<lparr> title := PStr ''other'' \<rparr>)"
  using Track_eq_precedence
          [of playlist_copy
              "playlist_copy\<lparr> title := PStr ''other'', artist := PStr ''B'', duration := 5 \<rparr>"]
        Track_eq_precedence [of store_track "playlist_copy\<lparr> title := PStr ''other'' \<rparr>"]
  by (simp add: playlist_copy_def store_track_def)

section \<open>The asynchronous wrapper: one delivery\<close>

text \<open>
  C2 (as stated: whenever the synchronous core raises an exception, the callback is
  invoked once with \<open>None\<close> and that exception). The handler is \<open>except Exception\<close>: a
  core that raises \<open>SystemExit\<close> has no callback invoked, and the thread ends with the
  exception.
\<close>

theorem process_exit_no_callback:
  "process exiting_core () () quiet_callback [(''track'', PStr ''t1'')] 0
     = (Inl SystemExit, [], 0)"
  by (simp add: process_def exiting_core_def)

text \<open>
  C2, amended. A call of the wrapped variant that has a callback returns with the thread
  started. When the synchronous core returns \<open>r\<close>, the thread invokes the callback exactly
  once, with \<open>r\<close>, \<open>None\<close> and the extra keyword arguments; when the core raises an
  instance \<open>e\<close> of \<open>Exception\<close>, exactly once with \<open>None\<close>, \<open>e\<close> and the extra keyword
  arguments. In both cases the thread ends as the callback does, in the state the callback
  leaves. When the core raises an exception that is not an instance of \<open>Exception\<close>, the
  callback is not invoked and the thread ends with that exception, in the state the core
  left. In no case does the spawning call raise.
\<close>

theorem asynchronous_callback_once:
  assumes "kw_callback kwargs = Some callback"
  shows "asynchronous func args kwargs =
           Inr (process func args (kw_rest kwargs) callback (pop_extra kwargs)) \<and>
     (\<forall>s r s1. func args (kw_rest kwargs) s = (Inr r, s1) \<longrightarrow>
        process func args (kw_rest kwargs) callback (pop_extra kwargs) s
          = (fst (callback r None (pop_extra kwargs) s1),
             [Delivery r None (pop_extra kwargs)],
             snd (callback r None (pop_extra kwargs) s1))) \<and>
     (\<forall>s e s1. func args (kw_rest kwargs) s = (Inl e, s1) \<and> is_Exception e \<longrightarrow>
        process func args (kw_rest kwargs) callback (pop_extra kwargs) s
          = (fst (callback None (Some e) (pop_extra kwargs) s1),
             [Delivery None (Some e) (pop_extra kwargs)],
             snd (callback None (Some e) (pop_extra kwargs) s1))) \<and>
     (\<forall>s e s1. func args (kw_rest kwargs) s = (Inl e, s1) \<and> \<not> is_Exception e \<longrightarrow>
        process func args (kw_rest kwargs) callback (pop_extra kwargs) s = (Inl e, [], s1))"
  using assms
  by (auto simp add: asynchronous_def process_def split: prod.splits)

theorem asynchronous_callback_once_witness:
  "kw_callback example_kwargs = Some quiet_callback \<and>
   asynchronous failing_core () example_kwargs =
     Inr (process failing_core () () quiet_callback [(''track'', PStr ''t1'')]) \<and>
   process failing_core () () quiet_callback [(''track'', PStr ''t1'')] 0
     = (Inr (), [Delivery None (Some (RemoteError ''unreachable'')) [(''track'', PStr ''t1'')]],
        Suc 0)"
proof -
  have cb: "kw_callback example_kwargs = Some quiet_callback"
    by (simp add: example_kwargs_def)
  have core: "failing_core () () 0 = (Inl (RemoteError ''unreachable''), 0)
                \<and> is_Exception (RemoteError ''unreachable'')"
    by (simp add: failing_core_def)
  have ex: "pop_extra example_kwargs = [(''track'', PStr ''t1'')]" "kw_rest example_kwargs = ()"
    by (simp_all add: pop_extra_def example_kwargs_def)
  note spawned = asynchronous_callback_once [OF cb, of failing_core "()", unfolded ex]
  from spawned have started: "asynchronous failing_core () example_kwargs =
      Inr (process failing_core () () quiet_callback [(''track'', PStr ''t1'')])"
    by (rule conjunct1)
  from spawned have "\<forall>s e s1. failing_core () () s = (Inl e, s1) \<and> is_Exception e \<longrightarrow>
        process failing_core () () quiet_callback [(''track'', PStr ''t1'')] s
          = (fst (quiet_callback None (Some e) [(''track'', PStr ''t1'')] s1),
             [Delivery None (Some e) [(''track'', PStr ''t1'')]],
             snd (quiet_callback None (Some e) [(''track'', PStr ''t1'')] s1))"
    by (rule conjunct2 [THEN conjunct2, THEN conjunct1])
  from this [rule_format, of 0 "RemoteError ''unreachable''" 0] core
  have "process failing_core () () quiet_callback [(''track'', PStr ''t1'')] 0
     = (Inr (), [Delivery None (Some (RemoteError ''unreachable'')) [(''track'', PStr ''t1'')]],
        Suc 0)"
    by (simp add: quiet_callback_def)
  with cb started show ?thesis by simp
qed

section \<open>The asynchronous wrapper: the pair delivered\<close>

text \<open>
  C7 (as stated: never both null). An operation that returns \<open>None\<close> has \<open>None\<close> and
  \<open>None\<close> delivered to its callback.
\<close>

theorem process_both_null:
  "map (\<lambda>d. (d_result d, d_error d))
     (deliveries (process silent_core () () quiet_callback [] 0)) = [(None, None)]"
  by (simp add: process_def deliveries_def silent_core_def quiet_callback_def)

text \<open>
  C7, amended. In every delivery the result and the error are never both non-null. The
  error is non-null exactly when the synchronous core raised, and the result is then
  null; when the error is null the result is the value the core returned, which is null
  when the core returned \<open>None\<close>.
\<close>

theorem process_delivery_shape:
  "\<forall>d \<in> set (deliveries (process func args rest callback extra s)).
      \<not> (d_result d \<noteq> None \<and> d_error d \<noteq> None) \<and>
      (d_error d \<noteq> None \<longleftrightarrow> (\<exists>e. fst (func args rest s) = Inl e)) \<and>
      (d_error d \<noteq> None \<longrightarrow> d_result d = None) \<and>
      (d_error d = None \<longrightarrow> fst (func args rest s) = Inr (d_result d))"
  by (auto simp add: process_def deliveries_def split: prod.splits sum.splits if_splits)

theorem process_delivery_shape_witness:
  "deliveries (process failing_core () () quiet_callback [] 0)
     = [Delivery None (Some (RemoteError ''unreachable'')) []] \<and>
   d_result (Delivery None (Some (RemoteError ''unreachable'')) ([] :: (string \<times> pyval) list))
     = (None :: pyval option)"
proof -
  have d: "deliveries (process failing_core () () quiet_callback [] 0)
             = [Delivery None (Some (RemoteError ''unreachable'')) []]"
    by (simp add: process_def deliveries_def failing_core_def quiet_callback_def)
  from process_delivery_shape [of failing_core "()" "()" quiet_callback "[]" 0] d
  show ?thesis by simp
qed

text \<open>
  An operation can fail without raising: a login that the service refuses returns
  \<open>False\<close>, which is delivered with no error.
\<close>

lemma login_async_refused:
  "map_sum id (\<lambda>body. deliveries (body loaded))
     (login_async mock_client (PStr ''me'', PStr ''wrong'', PStr ''dev'')
        \<lparr> kw_callback = Some (\<lambda>result error extra s. (Inr (), s)),
          kw_extra = None, kw_rest = () \<rparr>)
   = Inr [Delivery (Some False) None ([] :: (string \<times> pyval) list)]"
  by (simp add: login_async_def asynchronous_def process_def pop_extra_def deliveries_def
        returning_def login_def remote_def invalidate_caches_def fire_def Let_def
        is_authenticated_def mock_client_def loaded_def mock0_def mock_with_def)

section \<open>Lookup in the library cache\<close>

lemma scan_tracks_None:
  "scan_tracks any_id h ts = None \<longleftrightarrow> (\<forall>a \<in> set ts. \<not> id_matches any_id (h ! a))"
  by (induction ts) auto

lemma scan_tracks_Some:
  "scan_tracks any_id h ts = Some a \<Longrightarrow> a \<in> set ts \<and> id_matches any_id (h ! a)"
  by (induction ts) (auto split: if_splits)

text \<open>
  C6 (as stated: the no-match sentinel also when the cache is unpopulated). On the client
  as constructed the track cache is \<open>None\<close>, and the lookup raises \<open>TypeError\<close>.
\<close>

theorem get_track_by_id_unpopulated:
  "cached_tracks (GP_init mock0) = None \<and>
   get_track_by_id (PStr ''s1'') (GP_init mock0) = Inl TypeError"
  by (simp add: get_track_by_id_def GP_init_def invalidate_caches_def fire_def)

text \<open>
  C6, amended. When the track cache holds a list, \<open>get_track_by_id\<close> returns: the no-match
  sentinel exactly when no cached track has the identifier as its library id, store id or
  track id, and otherwise a cached track that has. When the track cache is \<open>None\<close> it
  raises \<open>TypeError\<close>.
\<close>

theorem get_track_by_id_result:
  "(cached_tracks s = None \<longrightarrow> get_track_by_id any_id s = Inl TypeError) \<and>
   (cached_tracks s = Some ts \<longrightarrow>
      (\<exists>r. get_track_by_id any_id s = Inr r \<and>
         (r = None \<longleftrightarrow>
            (\<forall>a \<in> set ts. any_id \<noteq> id' (heap s ! a) \<and> any_id \<noteq> store_id (heap s ! a)
                            \<and> any_id \<noteq> track_id (heap s ! a))) \<and>
         (\<forall>a. r = Some a \<longrightarrow> a \<in> set ts \<and>
            (any_id = id' (heap s ! a) \<or> any_id = store_id (heap s ! a)
               \<or> any_id = track_id (heap s ! a)))))"
  using scan_tracks_None [of any_id "heap s" ts] scan_tracks_Some [of any_id "heap s" ts]
  by (auto simp add: get_track_by_id_def id_matches_def)

theorem get_track_by_id_result_witness:
  "cached_tracks loaded = Some [0, 1] \<and>
   get_track_by_id (PStr ''s2'') loaded = Inr (Some 1) \<and>
   store_id (heap loaded ! 1) = PStr ''s2'' \<and>
   get_track_by_id (PStr ''zz'') loaded = Inr None"
  using get_track_by_id_result [of loaded "PStr ''s2''" "[0, 1]"]
        get_track_by_id_result [of loaded "PStr ''zz''" "[0, 1]"]
  by (simp add: loaded_def get_track_by_id_def id_matches_def)

section \<open>Login\<close>

lemma login_returns_iff:
  "(\<exists>result s'. login mc email password device_id s = (Inr result, s')) \<longleftrightarrow>
   (\<exists>b r1 result r2. mc_logout mc (mobile_client s) = (Inr b, r1) \<and>
      mc_login mc email password device_id r1 = (Inr result, r2))"
  by (auto simp add: login_def remote_def invalidate_caches_def fire_def Let_def
           split: prod.splits sum.splits)

text \<open>
  C8 (as stated: in every invocation the event is fired if and only if the state flips).
  The event is fired after the remote login has returned. With a remote client whose
  login authenticates the session and then raises, the state read after the logout is
  \<open>False\<close>, the state \<open>login\<close> leaves is \<open>True\<close>, and no authentication event is fired.
\<close>

theorem login_flips_without_event:
  "fst (login late_failing_client (PStr ''me'') (PStr ''secret'') (PStr ''dev'') loaded)
     = Inl (RemoteError ''timeout'') \<and>
   \<not> mc_is_authenticated late_failing_client
        (snd (mc_logout late_failing_client (mobile_client loaded))) \<and>
   is_authenticated late_failing_client
     (snd (login late_failing_client (PStr ''me'') (PStr ''secret'') (PStr ''dev'') loaded)) \<and>
   auth_events_since loaded
     (snd (login late_failing_client (PStr ''me'') (PStr ''secret'') (PStr ''dev'') loaded)) = []"
  by (simp add: login_def remote_def invalidate_caches_def fire_def Let_def
        is_authenticated_def auth_events_since_def late_failing_client_def mock_client_def
        loaded_def mock0_def mock_with_def)

text \<open>
  C8, amended. When \<open>login\<close> returns, the authentication events it has fired are: the
  single event carrying the new state when the new state differs from the state read after
  the logout and the invalidation, and none when the two are the same. When \<open>login\<close>
  raises it has fired no authentication event, whatever the remote call did to the state.
\<close>

theorem login_auth_state_changed:
  "(login mc email password device_id s = (Inr result, s') \<longrightarrow>
      auth_events_since s s' =
        (if mc_is_authenticated mc (snd (mc_logout mc (mobile_client s))) \<noteq> is_authenticated mc s'
         then [AuthStateChanged (is_authenticated mc s')] else [])) \<and>
   (login mc email password device_id s = (Inl e, s') \<longrightarrow> auth_events_since s s' = [])"
  by (auto simp add: login_def remote_def invalidate_caches_def fire_def Let_def
                     is_authenticated_def auth_events_since_def
           split: prod.splits sum.splits if_splits)

theorem login_auth_state_changed_witness:
  "login mock_client (PStr ''me'') (PStr ''secret'') (PStr ''dev'') loaded =
     (Inr True, loaded\<lparr> mobile_client := mock0\<lparr> m_auth := True \<rparr>, cached_tracks := None,
                        events := [CachesInvalidated, CachesInvalidated, AuthStateChanged True],
                        calls := [GetAllSongs, Logout, Login] \<rparr>) \<and>
   auth_events_since loaded
     (loaded\<lparr> mobile_client := mock0\<lparr> m_auth := True \<rparr>, cached_tracks := None,
              events := [CachesInvalidated, CachesInvalidated, AuthStateChanged True],
              calls := [GetAllSongs, Logout, Login] \<rparr>) = [AuthStateChanged True] \<and>
   login mock_client (PStr ''me'') (PStr ''wrong'') (PStr ''dev'') loaded =
     (Inr False, loaded\<lparr> cached_tracks := None,
                         events := [CachesInvalidated, CachesInvalidated],
                         calls := [GetAllSongs, Logout, Login] \<rparr>) \<and>
   auth_events_since loaded
     (loaded\<lparr> cached_tracks := None, events := [CachesInvalidated, CachesInvalidated],
              calls := [GetAllSongs, Logout, Login] \<rparr>) = [] \<and>
   login mock_client (PStr ''me'') (PStr ''secret'') (PStr ''dev'')
       (loaded\<lparr> mobile_client := mock0\<lparr> m_up := False \<rparr> \<rparr>) =
     (Inl (RemoteError ''unreachable''),
      loaded\<lparr> mobile_client := mock0\<lparr> m_up := False \<rparr>, cached_tracks := None,
               events := [CachesInvalidated, CachesInvalidated],
               calls := [GetAllSongs, Logout, Login] \<rparr>) \<and>
   auth_events_since (loaded\<lparr> mobile_client := mock0\<lparr> m_up := False \<rparr> \<rparr>)
     (loaded\<lparr> mobile_client := mock0\<lparr> m_up := False \<rparr>, cached_tracks := None,
              events := [CachesInvalidated, CachesInvalidated],
              calls := [GetAllSongs, Logout, Login] \<rparr>) = []"
proof -
  have down: "login mock_client (PStr ''me'') (PStr ''secret'') (PStr ''dev'')
       (loaded\<lparr> mobile_client := mock0\<lparr> m_up := False \<rparr> \<rparr>) =
     (Inl (RemoteError ''unreachable''),
      loaded\<lparr> mobile_client := mock0\<lparr> m_up := False \<rparr>, cached_tracks := None,
               events := [CachesInvalidated, CachesInvalidated],
               calls := [GetAllSongs, Logout, Login] \<rparr>)"
    by (simp add: login_def remote_def invalidate_caches_def fire_def Let_def
          is_authenticated_def mock_client_def loaded_def mock0_def mock_with_def)
  have run: "login mock_client (PStr ''me'') (PStr ''secret'') (PStr ''dev'') loaded =
     (Inr True, loaded\<lparr> mobile_client := mock0\<lparr> m_auth := True \<rparr>, cached_tracks := None,
                        events := [CachesInvalidated, CachesInvalidated, AuthStateChanged True],
                        calls := [GetAllSongs, Logout, Login] \<rparr>)"
    by (simp add: login_def remote_def invalidate_caches_def fire_def Let_def
          is_authenticated_def mock_client_def loaded_def mock0_def mock_with_def)
  have refused: "login mock_client (PStr ''me'') (PStr ''wrong'') (PStr ''dev'') loaded =
     (Inr False, loaded\<lparr> cached_tracks := None,
                         events := [CachesInvalidated, CachesInvalidated],
                         calls := [GetAllSongs, Logout, Login] \<rparr>)"
    by (simp add: login_def remote_def invalidate_caches_def fire_def Let_def
          is_authenticated_def mock_client_def loaded_def mock0_def mock_with_def)
  from login_auth_state_changed [of mock_client "PStr ''me''" "PStr ''secret''" "PStr ''dev''"
         loaded True _ TypeError]
       login_auth_state_changed [of mock_client "PStr ''me''" "PStr ''wrong''" "PStr ''dev''"
         loaded False _ TypeError]
       login_auth_state_changed [of mock_client "PStr ''me''" "PStr ''secret''" "PStr ''dev''"
         "loaded\<lparr> mobile_client := mock0\<lparr> m_up := False \<rparr> \<rparr>" True _
         "RemoteError ''unreachable''"]
       run refused down
  show ?thesis
    by (simp add: is_authenticated_def mock_client_def loaded_def mock0_def mock_with_def)
qed

section \<open>The caches\<close>

lemma get_all_tracks_frame:
  assumes "get_all_tracks mc py_int s = (res, s1)"
  shows "cached_playlists s1 = cached_playlists s \<and> events s1 = events s \<and>
         (calls s1 = calls s \<or> calls s1 = calls s @ [GetAllSongs]) \<and>
         (case res of Inr ts \<Rightarrow> cached_tracks s1 = Some ts
                    | Inl e \<Rightarrow> cached_tracks s1 = cached_tracks s)"
  using assms
  by (auto simp add: get_all_tracks_def cache_hit_def remote_def
           split: option.splits list.splits prod.splits sum.splits)

lemma get_all_tracks_raises_uncached:
  "get_all_tracks mc py_int s = (Inl e, s1) \<Longrightarrow> cache_hit (cached_tracks s1) = None"
  by (auto simp add: get_all_tracks_def cache_hit_def remote_def
           split: option.splits list.splits prod.splits sum.splits)

text \<open>
  C4 (as stated: two consecutive calls make at most one fetch). A call that raises caches
  nothing, so the next call fetches again. And with an empty library the first call
  stores the empty list, which the guard of the second call takes as no cache: both calls
  return and both fetch.
\<close>

theorem get_all_tracks_fetches_twice:
  "fst (get_all_tracks mock_client int_of_number (GP_init (mock0\<lparr> m_up := False \<rparr>)))
     = Inl (RemoteError ''unreachable'') \<and>
   calls (snd (get_all_tracks mock_client int_of_number
            (snd (get_all_tracks mock_client int_of_number (GP_init (mock0\<lparr> m_up := False \<rparr>))))))
     = [GetAllSongs, GetAllSongs] \<and>
   fst (get_all_tracks mock_client int_of_number (GP_init (mock_with [] []))) = Inr [] \<and>
   cached_tracks (snd (get_all_tracks mock_client int_of_number (GP_init (mock_with [] []))))
     = Some [] \<and>
   calls (snd (get_all_tracks mock_client int_of_number
            (snd (get_all_tracks mock_client int_of_number (GP_init (mock_with [] []))))))
     = [GetAllSongs, GetAllSongs]"
  by (simp add: get_all_tracks_def cache_hit_def remote_def GP_init_def invalidate_caches_def
        fire_def mock_client_def mock_call_def mock_with_def mock0_def)

text \<open>
  C4, amended. Whenever the track cache holds a non-empty sequence, \<open>get_all_tracks\<close>
  returns that sequence and leaves the client as it was, with no call to the remote
  service. So when a call of \<open>get_all_tracks\<close> returns a non-empty sequence, a second call
  right after it returns the same sequence, and the two calls have fetched at most once.
\<close>

theorem get_all_tracks_cache_hit:
  "(cached_tracks s = Some ts \<and> ts \<noteq> [] \<longrightarrow> get_all_tracks mc py_int s = (Inr ts, s)) \<and>
   (get_all_tracks mc py_int s = (Inr ts, s1) \<and> ts \<noteq> [] \<longrightarrow>
      get_all_tracks mc py_int s1 = (Inr ts, s1) \<and>
      fetches (snd (get_all_tracks mc py_int s1)) \<le> Suc (fetches s))"
proof -
  have hit: "get_all_tracks mc py_int s = (Inr ts, s)" if "cached_tracks s = Some ts" "ts \<noteq> []"
    for s :: "'a gp" and ts
    using that by (cases ts) (simp_all add: get_all_tracks_def cache_hit_def)
  have second: "get_all_tracks mc py_int s1 = (Inr ts, s1) \<and>
      fetches (snd (get_all_tracks mc py_int s1)) \<le> Suc (fetches s)"
    if run: "get_all_tracks mc py_int s = (Inr ts, s1)" and ne: "ts \<noteq> []"
  proof -
    from get_all_tracks_frame [OF run]
    have c: "cached_tracks s1 = Some ts"
      and k: "calls s1 = calls s \<or> calls s1 = calls s @ [GetAllSongs]"
      by simp_all
    from hit [OF c ne] have again: "get_all_tracks mc py_int s1 = (Inr ts, s1)" .
    from k have "fetches s1 \<le> Suc (fetches s)"
      by (auto simp add: fetches_def)
    with again show ?thesis by simp
  qed
  from hit second show ?thesis by blast
qed

theorem get_all_tracks_cache_hit_witness:
  "cached_tracks loaded = Some [0, 1] \<and>
   get_all_tracks mock_client int_of_number loaded = (Inr [0, 1], loaded) \<and>
   get_all_tracks mock_client int_of_number (GP_init mock0) = (Inr [0, 1], loaded) \<and>
   fetches (snd (get_all_tracks mock_client int_of_number loaded)) \<le> Suc (fetches (GP_init mock0))"
proof -
  have c: "cached_tracks loaded = Some [0, 1] \<and> [0, 1] \<noteq> ([] :: nat list)"
    by (simp add: loaded_def)
  have first: "get_all_tracks mock_client int_of_number (GP_init mock0) = (Inr [0, 1], loaded)"
    by (simp add: get_all_tracks_def cache_hit_def remote_def GP_init_def invalidate_caches_def
          fire_def mock_client_def mock_call_def mock_with_def mock0_def song_def loaded_def
          Track_from_data_def has_key_def dict_get_def int_of_number_def new_Track_def)
  from get_all_tracks_cache_hit [of loaded "[0, 1]" mock_client int_of_number loaded] c
  have "get_all_tracks mock_client int_of_number loaded = (Inr [0, 1], loaded)"
    by blast
  moreover
  from get_all_tracks_cache_hit [of "GP_init mock0" "[0, 1]" mock_client int_of_number loaded]
    first
  have "fetches (snd (get_all_tracks mock_client int_of_number loaded)) \<le> Suc (fetches (GP_init mock0))"
    by blast
  ultimately show ?thesis using c first by simp
qed

text \<open>The conversion of the playlists creates Track objects and changes nothing else.\<close>

lemma playlist_item_to_track_frame:
  "playlist_item_to_track py_int pt s = (res, s1) \<Longrightarrow> \<exists>ext. s1 = s\<lparr> heap := heap s @ ext \<rparr>"
  by (auto simp add: playlist_item_to_track_def Track_copy_def new_Track_def
           split: option.splits sum.splits intro: exI [of _ "[]"])

lemma items_loop_frame:
  "items_loop py_int pts acc s = (res, s') \<Longrightarrow> \<exists>ext. s' = s\<lparr> heap := heap s @ ext \<rparr>"
proof (induction pts arbitrary: acc s)
  case Nil
  then show ?case by (auto intro: exI [of _ "[]"])
next
  case (Cons pt pts)
  obtain r s1 where step: "playlist_item_to_track py_int pt s = (r, s1)"
    by (cases "playlist_item_to_track py_int pt s")
  from playlist_item_to_track_frame [OF step]
  obtain e1 where s1: "s1 = s\<lparr> heap := heap s @ e1 \<rparr>" ..
  show ?case
  proof (cases r)
    case (Inl e)
    with Cons.prems step s1 show ?thesis by auto
  next
    case (Inr a)
    with Cons.prems step have "items_loop py_int pts (acc @ [a]) s1 = (res, s')" by simp
    from Cons.IH [OF this] obtain e2 where "s' = s1\<lparr> heap := heap s1 @ e2 \<rparr>" ..
    with s1 have "s' = s\<lparr> heap := heap s @ (e1 @ e2) \<rparr>" by simp
    then show ?thesis ..
  qed
qed

lemma Playlist_from_data_frame:
  "Playlist_from_data py_int data s = (res, s1) \<Longrightarrow> \<exists>ext. s1 = s\<lparr> heap := heap s @ ext \<rparr>"
  by (auto simp add: Playlist_from_data_def playlist_items_to_tracks_def
           split: option.splits prod.splits sum.splits
           dest: items_loop_frame intro: exI [of _ "[]"])

lemma Playlist_from_data_many_frame:
  "Playlist_from_data_many py_int data s = (res, s') \<Longrightarrow> \<exists>ext. s' = s\<lparr> heap := heap s @ ext \<rparr>"
proof (induction data arbitrary: res s s')
  case Nil
  then show ?case by (auto intro: exI [of _ "[]"])
next
  case (Cons one data)
  obtain r s1 where step: "Playlist_from_data py_int one s = (r, s1)"
    by (cases "Playlist_from_data py_int one s")
  from Playlist_from_data_frame [OF step]
  obtain e1 where s1: "s1 = s\<lparr> heap := heap s @ e1 \<rparr>" ..
  show ?case
  proof (cases r)
    case (Inl e)
    with Cons.prems step s1 show ?thesis by auto
  next
    case (Inr p)
    obtain r2 s2 where rest: "Playlist_from_data_many py_int data s1 = (r2, s2)"
      by (cases "Playlist_from_data_many py_int data s1")
    from Cons.IH [OF rest] obtain e2 where "s2 = s1\<lparr> heap := heap s1 @ e2 \<rparr>" ..
    with s1 have "s2 = s\<lparr> heap := heap s @ (e1 @ e2) \<rparr>" by simp
    moreover from Cons.prems step Inr rest have "s' = s2" by (auto split: sum.splits)
    ultimately show ?thesis by blast
  qed
qed

lemma get_all_user_playlist_contents_frame:
  assumes "get_all_user_playlist_contents mc py_int s = (res, s')"
  shows "case res of
           Inr ps \<Rightarrow> cached_playlists s' = Some ps \<and> (s' = s \<or> cached_tracks s' \<noteq> None)
         | Inl e \<Rightarrow> cached_playlists s' = cached_playlists s \<and>
                    (cached_tracks s' = cached_tracks s \<or> cached_tracks s' \<noteq> None)"
proof (cases "cache_hit (cached_playlists s)")
  case (Some ps)
  with assms show ?thesis
    by (auto simp add: get_all_user_playlist_contents_def cache_hit_def
             split: option.splits list.splits)
next
  case None
  obtain r1 s1 where t: "get_all_tracks mc py_int s = (r1, s1)"
    by (cases "get_all_tracks mc py_int s")
  note f1 = get_all_tracks_frame [OF t]
  show ?thesis
  proof (cases r1)
    case (Inl e)
    with assms None t f1 show ?thesis
      by (auto simp add: get_all_user_playlist_contents_def)
  next
    case (Inr ts)
    obtain r2 s2 where
      p: "remote GetAllUserPlaylistContents (mc_get_all_user_playlist_contents mc) s1 = (r2, s2)"
      by (cases "remote GetAllUserPlaylistContents (mc_get_all_user_playlist_contents mc) s1")
    then have f2: "cached_tracks s2 = cached_tracks s1 \<and> cached_playlists s2 = cached_playlists s1"
      by (auto simp add: remote_def split: prod.splits)
    show ?thesis
    proof (cases r2)
      case (Inl e)
      with assms None t Inr p f1 f2 show ?thesis
        by (auto simp add: get_all_user_playlist_contents_def)
    next
      case data: (Inr data)
      obtain r3 s3 where m: "Playlist_from_data_many py_int data s2 = (r3, s3)"
        by (cases "Playlist_from_data_many py_int data s2")
      from Playlist_from_data_many_frame [OF m]
      obtain ext where "s3 = s2\<lparr> heap := heap s2 @ ext \<rparr>" ..
      then have f3: "cached_tracks s3 = cached_tracks s2 \<and> cached_playlists s3 = cached_playlists s2"
        by simp
      from assms None t Inr p data m f1 f2 f3 show ?thesis
        by (auto simp add: get_all_user_playlist_contents_def split: sum.splits)
    qed
  qed
qed

lemma login_frame:
  "login mc email password device_id s = (res, s') \<Longrightarrow>
     (cached_tracks s' = None \<and> cached_playlists s' = None) \<or>
     (cached_tracks s' = cached_tracks s \<and> cached_playlists s' = cached_playlists s)"
  by (auto simp add: login_def remote_def invalidate_caches_def fire_def Let_def
           split: prod.splits sum.splits if_splits)

lemma add_to_my_library_frame:
  "add_to_my_library mc track s = (res, s') \<Longrightarrow>
     (cached_tracks s' = None \<and> cached_playlists s' = None) \<or>
     (cached_tracks s' = cached_tracks s \<and> cached_playlists s' = cached_playlists s)"
  by (auto simp add: add_to_my_library_def remote_def invalidate_caches_def fire_def
           split: prod.splits sum.splits if_splits)

lemma remove_from_my_library_frame:
  "remove_from_my_library mc track s = (res, s') \<Longrightarrow>
     (cached_tracks s' = None \<and> cached_playlists s' = None) \<or>
     (cached_tracks s' = cached_tracks s \<and> cached_playlists s' = cached_playlists s)"
  by (auto simp add: remove_from_my_library_def remote_def invalidate_caches_def fire_def
           split: prod.splits sum.splits if_splits)

text \<open>
  The references in the track cache are always to objects of the store: this holds on the
  client as constructed and is kept by every operation, however it ends.
\<close>

lemma Track_from_data_many_heap:
  "Track_from_data_many py_int data h = (res, h') \<Longrightarrow>
     (\<exists>ext. h' = h @ ext) \<and> (\<forall>ts. res = Inr ts \<longrightarrow> (\<forall>a \<in> set ts. a < length h'))"
proof (induction data arbitrary: h res h')
  case Nil
  then show ?case by auto
next
  case (Cons one data)
  show ?case
  proof (cases "Track_from_data py_int one")
    case (Inl e)
    with Cons.prems show ?thesis by auto
  next
    case (Inr t)
    obtain r2 h2 where rest: "Track_from_data_many py_int data (h @ [t]) = (r2, h2)"
      by (cases "Track_from_data_many py_int data (h @ [t])")
    from Cons.IH [OF rest] obtain e2 where h2: "h2 = (h @ [t]) @ e2"
      and refs: "\<forall>ts. r2 = Inr ts \<longrightarrow> (\<forall>a \<in> set ts. a < length h2)"
      by blast
    from Cons.prems Inr rest have out: "h' = h2 \<and> res = (case r2 of Inl e \<Rightarrow> Inl e | Inr ts \<Rightarrow> Inr (length h # ts))"
      by (auto simp add: new_Track_def split: sum.splits)
    from out h2 have "h' = h @ ([t] @ e2)" by simp
    moreover from out refs h2 have "\<forall>ts. res = Inr ts \<longrightarrow> (\<forall>a \<in> set ts. a < length h')"
      by (auto split: sum.splits)
    ultimately show ?thesis by blast
  qed
qed

lemma cache_allocated_heap_append:
  "cache_allocated s \<Longrightarrow> cache_allocated (s\<lparr> heap := heap s @ ext \<rparr>)"
  by (auto simp add: cache_allocated_def split: option.splits)

lemma get_all_tracks_allocated:
  assumes "cache_allocated s"
  shows "cache_allocated (snd (get_all_tracks mc py_int s))"
proof (cases "cache_hit (cached_tracks s)")
  case (Some ts)
  with assms show ?thesis by (simp add: get_all_tracks_def)
next
  case None
  obtain r1 m1 where c: "mc_get_all_songs mc (mobile_client s) = (r1, m1)"
    by (cases "mc_get_all_songs mc (mobile_client s)")
  let ?s1 = "s\<lparr> mobile_client := m1, calls := calls s @ [GetAllSongs] \<rparr>"
  have a1: "cache_allocated ?s1"
    using assms by (auto simp add: cache_allocated_def split: option.splits)
  show ?thesis
  proof (cases r1)
    case (Inl e)
    with None c a1 show ?thesis by (simp add: get_all_tracks_def remote_def)
  next
    case (Inr data)
    obtain r2 h2 where m: "Track_from_data_many py_int data (heap s) = (r2, h2)"
      by (cases "Track_from_data_many py_int data (heap s)")
    from Track_from_data_many_heap [OF m] obtain ext where h2: "h2 = heap s @ ext"
      and refs: "\<forall>ts. r2 = Inr ts \<longrightarrow> (\<forall>a \<in> set ts. a < length h2)"
      by blast
    show ?thesis
    proof (cases r2)
      case (Inl e)
      from cache_allocated_heap_append [OF a1, of ext] h2
      have "cache_allocated (?s1\<lparr> heap := h2 \<rparr>)" by simp
      with None c Inr m Inl show ?thesis by (simp add: get_all_tracks_def remote_def)
    next
      case ts: (Inr ts)
      with refs have "cache_allocated (?s1\<lparr> heap := h2, cached_tracks := Some ts \<rparr>)"
        by (simp add: cache_allocated_def)
      with None c Inr m ts show ?thesis by (simp add: get_all_tracks_def remote_def)
    qed
  qed
qed

lemma get_all_user_playlist_contents_allocated:
  assumes "cache_allocated s"
  shows "cache_allocated (snd (get_all_user_playlist_contents mc py_int s))"
proof (cases "cache_hit (cached_playlists s)")
  case (Some ps)
  with assms show ?thesis by (simp add: get_all_user_playlist_contents_def)
next
  case None
  obtain r1 s1 where t: "get_all_tracks mc py_int s = (r1, s1)"
    by (cases "get_all_tracks mc py_int s")
  from get_all_tracks_allocated [OF assms, of mc py_int] t have a1: "cache_allocated s1" by simp
  show ?thesis
  proof (cases r1)
    case (Inl e)
    with None t a1 show ?thesis by (simp add: get_all_user_playlist_contents_def)
  next
    case (Inr ts)
    obtain r2 s2 where
      p: "remote GetAllUserPlaylistContents (mc_get_all_user_playlist_contents mc) s1 = (r2, s2)"
      by (cases "remote GetAllUserPlaylistContents (mc_get_all_user_playlist_contents mc) s1")
    with a1 have a2: "cache_allocated s2"
      by (auto simp add: remote_def cache_allocated_def split: prod.splits option.splits)
    show ?thesis
    proof (cases r2)
      case (Inl e)
      with None t Inr p a2 show ?thesis by (simp add: get_all_user_playlist_contents_def)
    next
      case data: (Inr data)
      obtain r3 s3 where m: "Playlist_from_data_many py_int data s2 = (r3, s3)"
        by (cases "Playlist_from_data_many py_int data s2")
      from Playlist_from_data_many_frame [OF m]
      obtain ext where "s3 = s2\<lparr> heap := heap s2 @ ext \<rparr>" ..
      with cache_allocated_heap_append [OF a2, of ext] have a3: "cache_allocated s3" by simp
      then have "cache_allocated (s3\<lparr> cached_playlists := Some ps \<rparr>)" for ps
        by (auto simp add: cache_allocated_def split: option.splits)
      with None t Inr p data m a3 show ?thesis
        by (auto simp add: get_all_user_playlist_contents_def split: sum.splits)
    qed
  qed
qed

lemma cache_allocated_preserved:
  "cache_allocated (GP_init r) \<and>
   (cache_allocated s \<longrightarrow>
      cache_allocated (snd (get_all_tracks mc py_int s)) \<and>
      cache_allocated (snd (get_all_user_playlist_contents mc py_int s)) \<and>
      cache_allocated (invalidate_caches s) \<and>
      cache_allocated (snd (login mc email password device_id s)) \<and>
      cache_allocated (snd (add_to_my_library mc track s)) \<and>
      cache_allocated (snd (remove_from_my_library mc track s)))"
proof -
  have "cache_allocated (GP_init r)"
    by (simp add: cache_allocated_def GP_init_def invalidate_caches_def fire_def)
  moreover have "cache_allocated (invalidate_caches s)"
    by (simp add: cache_allocated_def invalidate_caches_def fire_def)
  moreover have "cache_allocated (snd (login mc email password device_id s))"
    if "cache_allocated s"
    using that
    by (auto simp add: cache_allocated_def login_def remote_def invalidate_caches_def fire_def
             Let_def split: prod.splits sum.splits option.splits)
  moreover have "cache_allocated (snd (add_to_my_library mc track s))" if "cache_allocated s"
    using that
    by (auto simp add: cache_allocated_def add_to_my_library_def remote_def
             invalidate_caches_def fire_def split: prod.splits sum.splits option.splits)
  moreover have "cache_allocated (snd (remove_from_my_library mc track s))"
    if "cache_allocated s"
    using that
    by (auto simp add: cache_allocated_def remove_from_my_library_def remote_def
             invalidate_caches_def fire_def split: prod.splits sum.splits option.splits)
  ultimately show ?thesis
    using get_all_tracks_allocated get_all_user_playlist_contents_allocated by blast
qed

lemma synced_run:
  "get_all_user_playlist_contents mock_client int_of_number (GP_init mock1) =
     (Inr [\<lparr> playlist_id = PStr ''p1'', name = PStr ''P'', tracks = [2, 3] \<rparr>], synced)"
  by (simp add: get_all_user_playlist_contents_def get_all_tracks_def cache_hit_def remote_def
        GP_init_def invalidate_caches_def fire_def mock_client_def mock_call_def mock_with_def
        mock1_def song_def synced_def Track_from_data_def has_key_def dict_get_def
        int_of_number_def new_Track_def Track_copy_def Playlist_from_data_def
        playlist_items_to_tracks_def playlist_item_to_track_def playlist_of_def
        embedded_entry_def bare_entry_def get_track_by_id_def id_matches_def)

text \<open>
  C10. On the client as constructed, and after each of the six operations, however it
  ends (the state is also the one an exception leaves behind): when the playlist cache is
  populated, so is the track cache.
\<close>

theorem cache_dependency_preserved:
  "cache_dep (GP_init r) \<and>
   (cache_dep s \<longrightarrow>
      cache_dep (snd (get_all_tracks mc py_int s)) \<and>
      cache_dep (snd (get_all_user_playlist_contents mc py_int s)) \<and>
      cache_dep (invalidate_caches s) \<and>
      cache_dep (snd (login mc email password device_id s)) \<and>
      cache_dep (snd (add_to_my_library mc track s)) \<and>
      cache_dep (snd (remove_from_my_library mc track s)))"
proof -
  have init: "cache_dep (GP_init r)"
    by (simp add: cache_dep_def GP_init_def invalidate_caches_def fire_def)
  have inv: "cache_dep (invalidate_caches s)"
    by (simp add: cache_dep_def invalidate_caches_def fire_def)
  have t: "cache_dep (snd (get_all_tracks mc py_int s))" if "cache_dep s"
    using get_all_tracks_frame [of mc py_int s "fst (get_all_tracks mc py_int s)"
            "snd (get_all_tracks mc py_int s)"] that
    by (auto simp add: cache_dep_def split: sum.splits)
  have p: "cache_dep (snd (get_all_user_playlist_contents mc py_int s))" if "cache_dep s"
    using get_all_user_playlist_contents_frame
            [of mc py_int s "fst (get_all_user_playlist_contents mc py_int s)"
               "snd (get_all_user_playlist_contents mc py_int s)"] that
    by (auto simp add: cache_dep_def split: sum.splits)
  have l: "cache_dep (snd (login mc email password device_id s))" if "cache_dep s"
    using login_frame [of mc email password device_id s
            "fst (login mc email password device_id s)"
            "snd (login mc email password device_id s)"] that
    by (auto simp add: cache_dep_def)
  have a: "cache_dep (snd (add_to_my_library mc track s))" if "cache_dep s"
    using add_to_my_library_frame [of mc track s "fst (add_to_my_library mc track s)"
            "snd (add_to_my_library mc track s)"] that
    by (auto simp add: cache_dep_def)
  have d: "cache_dep (snd (remove_from_my_library mc track s))" if "cache_dep s"
    using remove_from_my_library_frame [of mc track s "fst (remove_from_my_library mc track s)"
            "snd (remove_from_my_library mc track s)"] that
    by (auto simp add: cache_dep_def)
  from init inv t p l a d show ?thesis by blast
qed

theorem cache_dependency_preserved_witness:
  "cache_dep synced \<and> cached_playlists synced \<noteq> None \<and> cached_tracks synced \<noteq> None \<and>
   cache_dep (snd (get_all_tracks mock_client int_of_number synced)) \<and>
   cache_dep (snd (get_all_user_playlist_contents mock_client int_of_number synced)) \<and>
   cache_dep (snd (add_to_my_library mock_client 2 synced)) \<and>
   cached_playlists (snd (add_to_my_library mock_client 2 synced)) = None"
proof -
  have d: "cache_dep synced" by (simp add: cache_dep_def synced_def)
  have a: "cached_playlists (snd (add_to_my_library mock_client 2 synced)) = None"
    by (simp add: add_to_my_library_def Track_id_def remote_def invalidate_caches_def fire_def
          mock_client_def mock_call_def mock_with_def mock1_def synced_def)
  have p: "cached_playlists synced \<noteq> None \<and> cached_tracks synced \<noteq> None"
    by (simp add: synced_def)
  from cache_dependency_preserved
         [of mock1 synced mock_client int_of_number PNone PNone PNone 2] d
  have "cache_dep (snd (get_all_tracks mock_client int_of_number synced)) \<and>
        cache_dep (snd (get_all_user_playlist_contents mock_client int_of_number synced)) \<and>
        cache_dep (snd (add_to_my_library mock_client 2 synced))"
    by blast
  with d a p show ?thesis by simp
qed

text \<open>
  The statement is about a cache that has been assigned. The guards of the two fetching
  operations ask more, a non-empty list, and in that sense the dependency can fail: with
  an empty library and one playlist, the playlist cache is a hit and the track cache is
  not.
\<close>

lemma cache_hit_dependency_empty_library:
  "cache_hit (cached_playlists (snd (get_all_user_playlist_contents mock_client int_of_number
      (GP_init (mock_with [] [playlist_of ''p1'' [embedded_entry ''s9'']]))))) \<noteq> None \<and>
   cache_hit (cached_tracks (snd (get_all_user_playlist_contents mock_client int_of_number
      (GP_init (mock_with [] [playlist_of ''p1'' [embedded_entry ''s9'']]))))) = None"
  by (simp add: get_all_user_playlist_contents_def get_all_tracks_def cache_hit_def remote_def
        GP_init_def invalidate_caches_def fire_def mock_client_def mock_call_def mock_with_def
        Track_from_data_def has_key_def dict_get_def int_of_number_def new_Track_def
        Playlist_from_data_def playlist_items_to_tracks_def playlist_item_to_track_def
        playlist_of_def embedded_entry_def)

text \<open>
  C9 (as stated: never exactly one cache populated). \<open>get_all_tracks\<close> on the client as
  constructed returns and leaves the track cache populated and the playlist cache empty.
\<close>

theorem get_all_tracks_one_cache:
  "get_all_tracks mock_client int_of_number (GP_init mock0) = (Inr [0, 1], loaded) \<and>
   cached_tracks loaded = Some [0, 1] \<and> cached_playlists loaded = None"
  by (simp add: get_all_tracks_def cache_hit_def remote_def GP_init_def invalidate_caches_def
        fire_def mock_client_def mock_call_def mock_with_def mock0_def song_def loaded_def
        Track_from_data_def has_key_def dict_get_def int_of_number_def new_Track_def)

text \<open>
  C9, amended. \<open>invalidate_caches\<close> clears both caches; so does \<open>login\<close> when it returns,
  and so do \<open>add_to_my_library\<close> and \<open>remove_from_my_library\<close> when the remote call returns
  a non-empty result. \<open>get_all_user_playlist_contents\<close>, when it returns, leaves both
  caches populated. \<open>get_all_tracks\<close>, when it returns, leaves the track cache populated
  and the playlist cache as it was.
\<close>

theorem caches_after_operations:
  "cached_tracks (invalidate_caches s) = None \<and> cached_playlists (invalidate_caches s) = None \<and>
   (add_to_my_library mc track s = (Inr result, s') \<and> result \<noteq> [] \<longrightarrow>
      cached_tracks s' = None \<and> cached_playlists s' = None) \<and>
   (remove_from_my_library mc track s = (Inr result, s') \<and> result \<noteq> [] \<longrightarrow>
      cached_tracks s' = None \<and> cached_playlists s' = None) \<and>
   (login mc email password device_id s = (Inr ok, s') \<longrightarrow>
      cached_tracks s' = None \<and> cached_playlists s' = None) \<and>
   (cache_dep s \<and> get_all_user_playlist_contents mc py_int s = (Inr ps, s') \<longrightarrow>
      cached_tracks s' \<noteq> None \<and> cached_playlists s' = Some ps) \<and>
   (get_all_tracks mc py_int s = (Inr ts, s') \<longrightarrow>
      cached_tracks s' = Some ts \<and> cached_playlists s' = cached_playlists s)"
proof -
  have inv: "cached_tracks (invalidate_caches s) = None \<and> cached_playlists (invalidate_caches s) = None"
    by (simp add: invalidate_caches_def fire_def)
  have a: "cached_tracks s' = None \<and> cached_playlists s' = None"
    if "add_to_my_library mc track s = (Inr result, s')" "result \<noteq> []"
    using that
    by (auto simp add: add_to_my_library_def remote_def invalidate_caches_def fire_def
             split: prod.splits sum.splits if_splits)
  have d: "cached_tracks s' = None \<and> cached_playlists s' = None"
    if "remove_from_my_library mc track s = (Inr result, s')" "result \<noteq> []"
    using that
    by (auto simp add: remove_from_my_library_def remote_def invalidate_caches_def fire_def
             split: prod.splits sum.splits if_splits)
  have l: "cached_tracks s' = None \<and> cached_playlists s' = None"
    if "login mc email password device_id s = (Inr ok, s')"
    using that
    by (auto simp add: login_def remote_def invalidate_caches_def fire_def Let_def
             split: prod.splits sum.splits if_splits)
  have p: "cached_tracks s' \<noteq> None \<and> cached_playlists s' = Some ps"
    if "cache_dep s" "get_all_user_playlist_contents mc py_int s = (Inr ps, s')"
    using get_all_user_playlist_contents_frame [OF that(2)] that(1)
    by (auto simp add: cache_dep_def)
  have t: "cached_tracks s' = Some ts \<and> cached_playlists s' = cached_playlists s"
    if "get_all_tracks mc py_int s = (Inr ts, s')"
    using get_all_tracks_frame [OF that] by simp
  from inv a d l p t show ?thesis by blast
qed

theorem caches_after_operations_witness:
  "remove_from_my_library mock_client 1 synced =
     (Inr [PStr ''l2''], synced\<lparr> cached_tracks := None, cached_playlists := None,
                                 events := [CachesInvalidated, CachesInvalidated],
                                 calls := [GetAllSongs, GetAllUserPlaylistContents,
                                           DeleteSongs (PStr ''l2'')] \<rparr>) \<and>
   cache_dep (GP_init mock1) \<and>
   get_all_user_playlist_contents mock_client int_of_number (GP_init mock1) =
     (Inr [\<lparr> playlist_id = PStr ''p1'', name = PStr ''P'', tracks = [2, 3] \<rparr>], synced) \<and>
   cached_tracks synced \<noteq> None \<and>
   cached_playlists synced = Some [\<lparr> playlist_id = PStr ''p1'', name = PStr ''P'', tracks = [2, 3] \<rparr>]"
proof -
  have r: "remove_from_my_library mock_client 1 synced =
     (Inr [PStr ''l2''], synced\<lparr> cached_tracks := None, cached_playlists := None,
                                 events := [CachesInvalidated, CachesInvalidated],
                                 calls := [GetAllSongs, GetAllUserPlaylistContents,
                                           DeleteSongs (PStr ''l2'')] \<rparr>)"
    by (simp add: remove_from_my_library_def Track_id_def remote_def invalidate_caches_def
          fire_def mock_client_def mock_call_def mock_with_def mock1_def synced_def)
  have c: "cache_dep (GP_init mock1)"
    by (simp add: cache_dep_def GP_init_def invalidate_caches_def fire_def)
  from caches_after_operations
         [of "GP_init mock1" mock_client 0 "[]" synced PNone PNone PNone True int_of_number
             "[\<lparr> playlist_id = PStr ''p1'', name = PStr ''P'', tracks = [2, 3] \<rparr>]" "[]"]
       c synced_run
  have "cached_tracks synced \<noteq> None \<and>
        cached_playlists synced = Some [\<lparr> playlist_id = PStr ''p1'', name = PStr ''P'', tracks = [2, 3] \<rparr>]"
    by blast
  with r c synced_run show ?thesis by simp
qed

section \<open>Playlist reconciliation: what the loop builds\<close>

lemma upt_first: "[n ..< Suc (n + k)] = n # [Suc n ..< Suc (n + k)]"
  by (simp add: upt_conv_Cons del: upt_Suc)

lemma Track_copy_eq: "Track_copy a h = (length h, h @ [h ! a])"
  by (simp add: Track_copy_def new_Track_def)

lemma playlist_item_to_track_Inr:
  "playlist_item_to_track py_int pt s = (Inr a, s1) \<longleftrightarrow>
     (\<exists>t. produced py_int s pt t \<and> a = length (heap s) \<and> s1 = s\<lparr> heap := heap s @ [t] \<rparr>)"
  by (auto simp add: playlist_item_to_track_def produced_def Track_copy_eq new_Track_def
           split: option.splits sum.splits)

lemma scan_tracks_append:
  "\<forall>a \<in> set ts. a < length h \<Longrightarrow> scan_tracks any_id (h @ ext) ts = scan_tracks any_id h ts"
  by (induction ts) (auto simp add: nth_append)

lemma get_track_by_id_append:
  assumes "cached_tracks s = Some lib" "\<forall>a \<in> set lib. a < length (heap s)"
  shows "get_track_by_id tid (s\<lparr> heap := heap s @ ext \<rparr>) = get_track_by_id tid s"
  using assms by (simp add: get_track_by_id_def scan_tracks_append)

lemma produced_append:
  assumes "cached_tracks s = Some lib" "\<forall>a \<in> set lib. a < length (heap s)"
  shows "produced py_int (s\<lparr> heap := heap s @ ext \<rparr>) pt t = produced py_int s pt t"
proof -
  have "(heap s @ ext) ! found = heap s ! found"
    if "scan_tracks tid (heap s) lib = Some found" for tid found
    using assms(2) scan_tracks_Some [OF that] by (simp add: nth_append)
  then show ?thesis
    using assms
    by (auto simp add: produced_def get_track_by_id_def scan_tracks_append split: option.splits)
qed

lemma items_loop_Inr:
  assumes "cached_tracks s = Some lib" "\<forall>a \<in> set lib. a < length (heap s)"
    and "items_loop py_int pts acc s = (Inr res, s')"
  shows "\<exists>new. list_all2 (produced py_int s) pts new \<and> s' = s\<lparr> heap := heap s @ new \<rparr> \<and>
           res = acc @ [length (heap s) ..< length (heap s) + length pts]"
  using assms
proof (induction pts arbitrary: acc s)
  case Nil
  then show ?case by simp
next
  case (Cons pt pts)
  from Cons.prems(3) obtain a s1 where
    step: "playlist_item_to_track py_int pt s = (Inr a, s1)"
    and rest: "items_loop py_int pts (acc @ [a]) s1 = (Inr res, s')"
    by (auto split: prod.splits sum.splits)
  from step obtain t where t: "produced py_int s pt t" and a: "a = length (heap s)"
    and s1: "s1 = s\<lparr> heap := heap s @ [t] \<rparr>"
    by (auto simp add: playlist_item_to_track_Inr)
  have c1: "cached_tracks s1 = Some lib" using Cons.prems(1) s1 by simp
  have w1: "\<forall>a \<in> set lib. a < length (heap s1)" using Cons.prems(2) s1 by auto
  from Cons.IH [OF c1 w1 rest] obtain new where
    n: "list_all2 (produced py_int s1) pts new" and s': "s' = s1\<lparr> heap := heap s1 @ new \<rparr>"
    and r: "res = (acc @ [a]) @ [length (heap s1) ..< length (heap s1) + length pts]"
    by blast
  have "list_all2 (produced py_int s) pts new"
    using n produced_append [OF Cons.prems(1,2), of py_int "[t]"] s1
    by (simp add: list_all2_conv_all_nth)
  then have "list_all2 (produced py_int s) (pt # pts) (t # new)" using t by simp
  moreover have "s' = s\<lparr> heap := heap s @ (t # new) \<rparr>" using s' s1 by simp
  moreover have "res = acc @ [length (heap s) ..< length (heap s) + length (pt # pts)]"
    using r a s1 by (simp add: upt_first del: upt_Suc)
  ultimately show ?case by blast
qed

lemma items_loop_append:
  assumes "cached_tracks s = Some lib" "\<forall>a \<in> set lib. a < length (heap s)"
    and "list_all2 (produced py_int s) pre new"
  shows "items_loop py_int (pre @ rest) acc s =
           items_loop py_int rest (acc @ [length (heap s) ..< length (heap s) + length pre])
             (s\<lparr> heap := heap s @ new \<rparr>)"
  using assms
proof (induction pre arbitrary: acc s new)
  case Nil
  then show ?case by simp
next
  case (Cons pt pre)
  from Cons.prems(3) obtain t new' where new: "new = t # new'"
    and t: "produced py_int s pt t" and n': "list_all2 (produced py_int s) pre new'"
    by (auto simp add: list_all2_Cons1)
  let ?s1 = "s\<lparr> heap := heap s @ [t] \<rparr>"
  have step: "playlist_item_to_track py_int pt s = (Inr (length (heap s)), ?s1)"
    unfolding playlist_item_to_track_Inr using t by blast
  have c1: "cached_tracks ?s1 = Some lib" using Cons.prems(1) by simp
  have w1: "\<forall>a \<in> set lib. a < length (heap ?s1)" using Cons.prems(2) by auto
  have "list_all2 (produced py_int ?s1) pre new'"
    using n' produced_append [OF Cons.prems(1,2), of py_int "[t]"]
    by (simp add: list_all2_conv_all_nth)
  from Cons.IH [OF c1 w1 this, of "acc @ [length (heap s)]"] step new
  show ?case by (simp add: upt_first del: upt_Suc)
qed

text \<open>
  The reconciliation returns when every entry stands for a Track: embedded data that
  parse, or a bare track id found in the library cache.
\<close>

lemma playlist_items_to_tracks_returns:
  assumes "cached_tracks s = Some lib" "\<forall>a \<in> set lib. a < length (heap s)"
    and "list_all2 (produced py_int s) pts new"
  shows "playlist_items_to_tracks py_int pts s =
           (Inr [length (heap s) ..< length (heap s) + length pts], s\<lparr> heap := heap s @ new \<rparr>)"
  using items_loop_append [OF assms, of "[]" "[]"]
  by (simp add: playlist_items_to_tracks_def)



section \<open>Playlist reconciliation: a reference to a track that is not in the library\<close>

text \<open>
  C5 (as stated: the fetch of the playlists does not crash). The second playlist has an
  entry with a bare track id that the library does not have: the whole fetch raises
  \<open>AttributeError\<close> and the playlist cache stays \<open>None\<close>, the first playlist included.
\<close>

theorem get_all_user_playlist_contents_crashes:
  "fst (get_all_user_playlist_contents mock_client int_of_number (GP_init mock2))
     = Inl AttributeError \<and>
   cached_playlists (snd (get_all_user_playlist_contents mock_client int_of_number (GP_init mock2)))
     = None"
  by (simp add: get_all_user_playlist_contents_def get_all_tracks_def cache_hit_def remote_def
        GP_init_def invalidate_caches_def fire_def mock_client_def mock_call_def mock_with_def
        mock2_def song_def Track_from_data_def has_key_def dict_get_def
        int_of_number_def new_Track_def Track_copy_def Playlist_from_data_def
        playlist_items_to_tracks_def playlist_item_to_track_def playlist_of_def
        embedded_entry_def bare_entry_def get_track_by_id_def id_matches_def)

text \<open>
  C5, amended. When the entries contain one with a bare track id that no track of the
  populated library cache has, the reconciliation returns no list of tracks: it raises,
  and what it raises when the entries before that one stand for tracks is the
  \<open>AttributeError\<close> of copying the no-match sentinel. The reference is thus never left out
  of a returned list, and the exception ends the conversion of the whole response.
\<close>

theorem playlist_items_to_tracks_missing_reference:
  assumes "cached_tracks s = Some lib" and "\<forall>a \<in> set lib. a < length (heap s)"
    and "entry_track pt = None" and "entry_trackId pt = Some tid"
    and "get_track_by_id tid s = Inr None"
  shows "(\<exists>e s'. playlist_items_to_tracks py_int (pre @ pt # post) s = (Inl e, s')) \<and>
         (\<forall>new. list_all2 (produced py_int s) pre new \<longrightarrow>
            playlist_items_to_tracks py_int (pre @ pt # post) s
              = (Inl AttributeError, s\<lparr> heap := heap s @ new \<rparr>))"
proof -
  have no: "\<not> produced py_int s pt t" for t
    using assms(3,4,5) by (simp add: produced_def)
  have raises: "\<exists>e s'. playlist_items_to_tracks py_int (pre @ pt # post) s = (Inl e, s')"
  proof (cases "playlist_items_to_tracks py_int (pre @ pt # post) s")
    case (Pair r s')
    show ?thesis
    proof (cases r)
      case (Inl e)
      with Pair show ?thesis by blast
    next
      case (Inr res)
      with Pair have "items_loop py_int (pre @ pt # post) [] s = (Inr res, s')"
        by (simp add: playlist_items_to_tracks_def)
      from items_loop_Inr [OF assms(1,2) this]
      obtain new where "list_all2 (produced py_int s) (pre @ pt # post) new" by blast
      then obtain t where "produced py_int s pt t"
        by (auto simp add: list_all2_append1 list_all2_Cons1)
      with no show ?thesis by blast
    qed
  qed
  have at: "playlist_items_to_tracks py_int (pre @ pt # post) s
              = (Inl AttributeError, s\<lparr> heap := heap s @ new \<rparr>)"
    if "list_all2 (produced py_int s) pre new" for new
  proof -
    have "get_track_by_id tid (s\<lparr> heap := heap s @ new \<rparr>) = Inr None"
      using get_track_by_id_append [OF assms(1,2)] assms(5) by simp
    then have "playlist_item_to_track py_int pt (s\<lparr> heap := heap s @ new \<rparr>)
                 = (Inl AttributeError, s\<lparr> heap := heap s @ new \<rparr>)"
      using assms(3,4) by (simp add: playlist_item_to_track_def)
    with items_loop_append [OF assms(1,2) that, of "pt # post" "[]"]
    show ?thesis by (simp add: playlist_items_to_tracks_def)
  qed
  from raises at show ?thesis by blast
qed

theorem playlist_items_to_tracks_missing_reference_witness:
  "get_track_by_id (PStr ''gone'') loaded = Inr None \<and>
   playlist_items_to_tracks int_of_number
       ([embedded_entry ''s9''] @ bare_entry ''gone'' # [bare_entry ''l2'']) loaded
     = (Inl AttributeError, loaded\<lparr> heap := heap loaded @ [heap synced ! 2] \<rparr>)"
proof -
  have c: "cached_tracks loaded = Some [0, 1]" by (simp add: loaded_def)
  have w: "\<forall>a \<in> set [0, 1 :: nat]. a < length (heap loaded)" by (simp add: loaded_def)
  have b: "entry_track (bare_entry ''gone'') = None"
    "entry_trackId (bare_entry ''gone'') = Some (PStr ''gone'')"
    by (simp_all add: bare_entry_def)
  have absent: "get_track_by_id (PStr ''gone'') loaded = Inr None"
    by (simp add: get_track_by_id_def id_matches_def loaded_def)
  have pre: "list_all2 (produced int_of_number loaded) [embedded_entry ''s9''] [heap synced ! 2]"
    by (simp add: produced_def embedded_entry_def Track_from_data_def has_key_def dict_get_def
          int_of_number_def synced_def)
  from playlist_items_to_tracks_missing_reference
         [OF c w b absent, of int_of_number "[embedded_entry ''s9'']" "[bare_entry ''l2'']"]
       pre absent
  show ?thesis by blast
qed

end
